theory Spec2Isabelle
  imports Main
begin

section \<open>AutismFriendlySite.jsx: the preference state\<close>

text \<open>
  The component \<open>AutismFriendlySite\<close> keeps five independent \<open>useState\<close> cells
  (source lines 22-26). They are the fields of one record. \<open>theme\<close> is a JavaScript
  string, \<open>fontSize\<close> a number (the range control has the default step 1, so the
  values it emits are integers), the other three are booleans.
\<close>

record prefs =
  theme :: string
  fontSize :: int
  reduceMotion :: bool
  simplified :: bool
  sparklesOn :: bool

text \<open>The \<open>useState\<close> initialisers of lines 22-26.\<close>

definition initialState :: prefs where
  "initialState =
     \<lparr>theme = ''calm'', fontSize = 16, reduceMotion = False, simplified = False,
      sparklesOn = True\<rparr>"

text \<open>
  A React state setter takes either the next value or an updater function of the
  previous value. The source uses the updater form once (line 89).
\<close>

datatype 'a update = Value 'a | Updater "'a \<Rightarrow> 'a"

fun applyUpdate :: "'a update \<Rightarrow> 'a \<Rightarrow> 'a" where
  "applyUpdate (Value v) old = v"
| "applyUpdate (Updater f) old = f old"

definition setTheme :: "string \<Rightarrow> prefs \<Rightarrow> prefs" where
  "setTheme t s = s\<lparr>theme := t\<rparr>"

definition setFontSize :: "int \<Rightarrow> prefs \<Rightarrow> prefs" where
  "setFontSize n s = s\<lparr>fontSize := n\<rparr>"

definition setReduceMotion :: "bool \<Rightarrow> prefs \<Rightarrow> prefs" where
  "setReduceMotion b s = s\<lparr>reduceMotion := b\<rparr>"

definition setSimplified :: "bool \<Rightarrow> prefs \<Rightarrow> prefs" where
  "setSimplified b s = s\<lparr>simplified := b\<rparr>"

definition setSparklesOn :: "bool update \<Rightarrow> prefs \<Rightarrow> prefs" where
  "setSparklesOn u s = s\<lparr>sparklesOn := applyUpdate u (sparklesOn s)\<rparr>"

section \<open>Event handlers\<close>

text \<open>
  One constructor for each control of the page: the two checkboxes (lines 72, 82), the
  sparkles button (line 89), the three theme buttons (lines 110-112), the range input
  (line 124, carrying \<open>Number(e.target.value)\<close>) and the two quick controls
  (lines 145-146). \<open>SystemMotionPrefChange\<close> is the host changing its
  \<open>prefers-reduced-motion\<close> setting while the page is open.
\<close>

datatype event =
    SimplifiedChange bool
  | ReduceMotionChange bool
  | SparklesClick
  | CalmClick
  | OceanClick
  | ContrastClick
  | FontSizeChange int
  | QuietModeClick
  | PlayfulModeClick
  | SystemMotionPrefChange bool

definition sparklesClick :: "prefs \<Rightarrow> prefs" where
  "sparklesClick s = setSparklesOn (Updater (\<lambda>v. \<not> v)) s"

definition quietModeClick :: "prefs \<Rightarrow> prefs" where
  "quietModeClick s =
     setSparklesOn (Value False) (setReduceMotion True (setSimplified True s))"

definition playfulModeClick :: "prefs \<Rightarrow> prefs" where
  "playfulModeClick s =
     setSparklesOn (Value True) (setReduceMotion False (setSimplified False s))"

text \<open>
  The component registers no listener on the media query (line 30 only reads
  \<open>mq.matches\<close>), so a change of the host setting runs no handler.
\<close>

fun handle :: "event \<Rightarrow> prefs \<Rightarrow> prefs" where
  "handle (SimplifiedChange b) s = setSimplified b s"
| "handle (ReduceMotionChange b) s = setReduceMotion b s"
| "handle SparklesClick s = sparklesClick s"
| "handle CalmClick s = setTheme ''calm'' s"
| "handle OceanClick s = setTheme ''ocean'' s"
| "handle ContrastClick s = setTheme ''contrast'' s"
| "handle (FontSizeChange n) s = setFontSize n s"
| "handle QuietModeClick s = quietModeClick s"
| "handle PlayfulModeClick s = playfulModeClick s"
| "handle (SystemMotionPrefChange b) s = s"

section \<open>The theme effect\<close>

text \<open>
  \<open>document.documentElement.style\<close> is a store of custom properties, from property
  name to value.
\<close>

type_synonym style = "string \<rightharpoonup> string"

definition setProperty :: "string \<Rightarrow> string \<Rightarrow> style \<Rightarrow> style" where
  "setProperty name v root = root(name \<mapsto> v)"

text \<open>
  The template literal of line 37 prints the number, followed by \<open>px\<close>. The printing
  below is JavaScript's for an integer below \<open>10^21\<close> in magnitude: plain decimal
  digits, with a minus sign for a negative number. From \<open>10^21\<close> on JavaScript prints
  an exponent, which is not modelled here.
\<close>

definition digit_char :: "nat \<Rightarrow> char" where
  "digit_char d = ''0123456789'' ! d"

function decimal :: "nat \<Rightarrow> string" where
  "decimal n = (if n < 10 then [digit_char n] else decimal (n div 10) @ [digit_char (n mod 10)])"
  by pat_completeness auto
termination
  by (relation "measure (\<lambda>n. n)") auto

declare decimal.simps [simp del]

definition numberToString :: "int \<Rightarrow> string" where
  "numberToString n = (if n < 0 then CHR ''-'' # decimal (nat (- n)) else decimal (nat n))"

definition px :: "int \<Rightarrow> string" where
  "px n = numberToString n @ ''px''"

text \<open>
  The effect of lines 34-52: the font size is written first, then the palette by an
  if / else-if chain on the theme that has no final else.
\<close>

definition themeEffect :: "prefs \<Rightarrow> style \<Rightarrow> style" where
  "themeEffect s root =
     (let root1 = setProperty ''--site-font-size'' (px (fontSize s)) root in
      if theme s = ''calm'' then
        setProperty ''--accent'' ''#7cc0e8''
          (setProperty ''--muted'' ''#52606d'' (setProperty ''--bg'' ''#fffef6'' root1))
      else if theme s = ''ocean'' then
        setProperty ''--accent'' ''#00a6d6''
          (setProperty ''--muted'' ''#0e3b57'' (setProperty ''--bg'' ''#eef9ff'' root1))
      else if theme s = ''contrast'' then
        setProperty ''--accent'' ''#ffd60a''
          (setProperty ''--muted'' ''#ffffff'' (setProperty ''--bg'' ''#000000'' root1))
      else root1)"

text \<open>The palette read back from the store: background, muted, accent.\<close>

definition palette :: "style \<Rightarrow> string option \<times> string option \<times> string option" where
  "palette root = (root ''--bg'', root ''--muted'', root ''--accent'')"

section \<open>Mounting and running the component\<close>

text \<open>
  The page as a whole: the component's state, the root style store, and the host's
  reduced-motion signal (\<open>mq.matches\<close>).
\<close>

record world =
  state :: prefs
  rootStyle :: style
  mqMatches :: bool

text \<open>The mount effect of lines 28-32, with dependency list \<open>[]\<close>: it runs once.\<close>

definition mountEffect :: "bool \<Rightarrow> prefs \<Rightarrow> prefs" where
  "mountEffect matches s = (if matches then setReduceMotion True s else s)"

text \<open>
  Mounting renders with the initial state and then runs both effects against it: the
  mount effect queues its update, the theme effect writes the store.
\<close>

definition mount :: "bool \<Rightarrow> style \<Rightarrow> world" where
  "mount matches root0 =
     \<lparr>state = mountEffect matches initialState,
      rootStyle = themeEffect initialState root0,
      mqMatches = matches\<rparr>"

text \<open>
  One event: its handler updates the state; the theme effect, whose dependency list is
  \<open>[theme, fontSize]\<close>, runs again when one of the two has changed. A change of the
  host setting only changes the signal.
\<close>

definition step :: "event \<Rightarrow> world \<Rightarrow> world" where
  "step e w =
     (let s' = handle e (state w) in
      \<lparr>state = s',
       rootStyle =
         (if theme s' \<noteq> theme (state w) \<or> fontSize s' \<noteq> fontSize (state w)
          then themeEffect s' (rootStyle w) else rootStyle w),
       mqMatches = (case e of SystemMotionPrefChange b \<Rightarrow> b | _ \<Rightarrow> mqMatches w)\<rparr>)"

fun run :: "event list \<Rightarrow> world \<Rightarrow> world" where
  "run [] w = w"
| "run (e # es) w = run es (step e w)"

section \<open>The decorative output\<close>

text \<open>
  The parts of the decorative markup, one constructor for each group of elements that
  the JSX renders together:
  \<^item> \<open>CatBody\<close>: the group of lines 204-216; \<open>CatSparkles\<close>: the group of lines 220-224;
  \<^item> \<open>MoonDisc\<close>: the circle and gradient of lines 235-241; \<open>MoonHighlight\<close>: the
    group of lines 243-245;
  \<^item> \<open>SharkBody\<close>: the group of lines 256-260; \<open>SharkSparkles\<close>: the group of
    lines 263-266;
  \<^item> \<open>WavesPlaceholder\<close>: the empty box of line 275; \<open>WavePath\<close>: the path of
    lines 280-284; \<open>WaveAnimate\<close>: the \<open>animate\<close> element of lines 287-295;
  \<^item> \<open>Sparkle left top\<close>: one fixed-position star of lines 309-313;
    \<open>FloatyKeyframes\<close>: the style element of lines 317-320.
\<close>

datatype part =
    CatBody
  | CatSparkles
  | MoonDisc
  | MoonHighlight
  | SharkBody
  | SharkSparkles
  | WavesPlaceholder
  | WavePath
  | WaveAnimate
  | Sparkle string string
  | FloatyKeyframes

definition DecorativeCat :: "bool \<Rightarrow> bool \<Rightarrow> bool \<Rightarrow> part list" where
  "DecorativeCat simpl reduce sparkles =
     CatBody # (if \<not> simpl \<and> sparkles \<and> \<not> reduce then [CatSparkles] else [])"

definition DecorativeMoon :: "bool \<Rightarrow> bool \<Rightarrow> part list" where
  "DecorativeMoon simpl reduce = MoonDisc # (if \<not> simpl then [MoonHighlight] else [])"

definition DecorativeShark :: "bool \<Rightarrow> bool \<Rightarrow> bool \<Rightarrow> part list" where
  "DecorativeShark simpl reduce sparkles =
     SharkBody # (if \<not> simpl \<and> sparkles \<and> \<not> reduce then [SharkSparkles] else [])"

definition OceanWaves :: "bool \<Rightarrow> bool \<Rightarrow> part list" where
  "OceanWaves simpl reduce =
     (if simpl then [WavesPlaceholder]
      else WavePath # (if \<not> reduce then [WaveAnimate] else []))"

definition sparkles :: "(string \<times> string) list" where
  "sparkles = [(''10%'', ''10%''), (''30%'', ''25%''), (''70%'', ''15%''), (''85%'', ''60%'')]"

definition Sparkles :: "bool \<Rightarrow> part list" where
  "Sparkles reduce =
     map (\<lambda>(l, t). Sparkle l t) sparkles @ (if \<not> reduce then [FloatyKeyframes] else [])"

text \<open>
  The decorative children of what \<open>AutismFriendlySite\<close> returns, in document order
  (lines 172, 176, 180, 186 and 195).
\<close>

definition AutismFriendlySite :: "prefs \<Rightarrow> part list" where
  "AutismFriendlySite s =
     DecorativeCat (simplified s) (reduceMotion s) (sparklesOn s)
     @ DecorativeMoon (simplified s) (reduceMotion s)
     @ DecorativeShark (simplified s) (reduceMotion s) (sparklesOn s)
     @ OceanWaves (simplified s) (reduceMotion s)
     @ (if \<not> simplified s \<and> sparklesOn s then Sparkles (reduceMotion s) else [])"

text \<open>
  The two ways the markup animates: the SVG \<open>animate\<close> element and the style element
  that attaches the \<open>floaty\<close> keyframes.
\<close>

fun is_animation :: "part \<Rightarrow> bool" where
  "is_animation WaveAnimate = True"
| "is_animation FloatyKeyframes = True"
| "is_animation _ = False"

section \<open>Inputs of the range control\<close>

text \<open>
  The range input of lines 118-126 is declared with \<open>min={14}\<close> and \<open>max={28}\<close>. An
  event is within the control's range when its font size, if it carries one, lies
  between the two.
\<close>

definition in_slider_range :: "event \<Rightarrow> bool" where
  "in_slider_range e = (case e of FontSizeChange n \<Rightarrow> 14 \<le> n \<and> n \<le> 28 | _ \<Rightarrow> True)"

text \<open>
  A range input holds a value within its declared bounds: a value below \<open>min\<close> is
  replaced by \<open>min\<close>, a value above \<open>max\<close> by \<open>max\<close> (and by \<open>min\<close> when \<open>max\<close> is
  below \<open>min\<close>). With the default step 1 counted from \<open>min\<close>, every integer between
  the bounds is kept as it is. This happens in the control, before the \<open>onChange\<close>
  handler of line 124 reads \<open>e.target.value\<close>.
\<close>

definition rangeValue :: "int \<Rightarrow> int \<Rightarrow> int \<Rightarrow> int" where
  "rangeValue lo hi n = (if n < lo \<or> hi < lo then lo else if hi < n then hi else n)"

text \<open>
  An event as the page's controls deliver it to the handlers: a font size put into the
  range input arrives as the value the control holds; the other controls pass their
  events on unchanged.
\<close>

definition deliver :: "event \<Rightarrow> event" where
  "deliver e = (case e of FontSizeChange n \<Rightarrow> FontSizeChange (rangeValue 14 28 n) | _ \<Rightarrow> e)"

text \<open>The events that come from a control of the page, as opposed to the host.\<close>

definition user_event :: "event \<Rightarrow> bool" where
  "user_event e = (case e of SystemMotionPrefChange b \<Rightarrow> False | _ \<Rightarrow> True)"

section \<open>The specification's wording\<close>

text \<open>
  The specification's clamp of a font size to the nearest bound of the interval from
  14 to 28.
\<close>

definition clamp_spec :: "int \<Rightarrow> int" where
  "clamp_spec n = (if n < 14 then 14 else if 28 < n then 28 else n)"

text \<open>
  The specification's derived visibility rule: a decoration is visible iff the state
  is not simplified, and a decoration of the sparkle class needs the decorations flag
  as well.
\<close>

fun sparkle_class :: "part \<Rightarrow> bool" where
  "sparkle_class CatSparkles = True"
| "sparkle_class SharkSparkles = True"
| "sparkle_class (Sparkle l t) = True"
| "sparkle_class _ = False"

definition visible_spec :: "part \<Rightarrow> prefs \<Rightarrow> bool" where
  "visible_spec p s = (\<not> simplified s \<and> (if sparkle_class p then sparklesOn s else True))"

text \<open>
  The specification's fixed table of palettes (background, muted, accent); a theme
  outside the three has none.
\<close>

definition palette_table :: "string \<Rightarrow> string option \<times> string option \<times> string option" where
  "palette_table t =
     (if t = ''calm'' then (Some ''#fffef6'', Some ''#52606d'', Some ''#7cc0e8'')
      else if t = ''ocean'' then (Some ''#eef9ff'', Some ''#0e3b57'', Some ''#00a6d6'')
      else if t = ''contrast'' then (Some ''#000000'', Some ''#ffffff'', Some ''#ffd60a'')
      else (None, None, None))"

text \<open>
  The page is in step with its theme: the theme is one of the three and the root style
  holds that theme's row of the table.
\<close>

definition palette_applied :: "world \<Rightarrow> bool" where
  "palette_applied w =
     (theme (state w) \<in> {''calm'', ''ocean'', ''contrast''}
      \<and> palette (rootStyle w) = palette_table (theme (state w)))"

section \<open>Auxiliary facts\<close>

lemmas setter_defs =
  setTheme_def setFontSize_def setReduceMotion_def setSimplified_def setSparklesOn_def

lemmas handler_defs = sparklesClick_def quietModeClick_def playfulModeClick_def

lemmas component_defs =
  DecorativeCat_def DecorativeMoon_def DecorativeShark_def OceanWaves_def Sparkles_def

lemma handle_range:
  "in_slider_range e \<Longrightarrow> 14 \<le> fontSize s \<Longrightarrow> fontSize s \<le> 28 \<Longrightarrow>
   14 \<le> fontSize (handle e s) \<and> fontSize (handle e s) \<le> 28"
  by (cases e) (simp_all add: in_slider_range_def setter_defs handler_defs)

lemma step_state: "state (step e w) = handle e (state w)"
  by (simp add: step_def Let_def)

lemma run_range:
  "list_all in_slider_range es \<Longrightarrow> 14 \<le> fontSize (state w) \<Longrightarrow> fontSize (state w) \<le> 28 \<Longrightarrow>
   14 \<le> fontSize (state (run es w)) \<and> fontSize (state (run es w)) \<le> 28"
proof (induction es arbitrary: w)
  case Nil
  then show ?case by simp
next
  case (Cons e es)
  have "14 \<le> fontSize (state (step e w)) \<and> fontSize (state (step e w)) \<le> 28"
    using Cons.prems handle_range [of e "state w"] by (simp add: step_state)
  then show ?case using Cons.IH [of "step e w"] Cons.prems by simp
qed

lemma run_system_changes: "state (run (map SystemMotionPrefChange bs) w) = state w"
  by (induction bs arbitrary: w) (simp_all add: step_state)

lemma themeEffect_table:
  "theme s \<in> {''calm'', ''ocean'', ''contrast''} \<Longrightarrow>
   palette (themeEffect s root) = palette_table (theme s)"
  by (auto simp add: palette_def themeEffect_def palette_table_def setProperty_def Let_def)

lemma handle_theme:
  "theme s \<in> {''calm'', ''ocean'', ''contrast''} \<Longrightarrow>
   theme (handle e s) \<in> {''calm'', ''ocean'', ''contrast''}"
  by (cases e) (simp_all add: setter_defs handler_defs)

lemma step_palette_applied: "palette_applied w \<Longrightarrow> palette_applied (step e w)"
proof -
  assume a: "palette_applied w"
  let ?s = "handle e (state w)"
  have t: "theme ?s \<in> {''calm'', ''ocean'', ''contrast''}"
    using a handle_theme [of "state w" e] by (simp add: palette_applied_def)
  show ?thesis
  proof (cases "theme ?s \<noteq> theme (state w) \<or> fontSize ?s \<noteq> fontSize (state w)")
    case True
    then have "rootStyle (step e w) = themeEffect ?s (rootStyle w)"
      by (simp add: step_def Let_def)
    then show ?thesis
      using t themeEffect_table [OF t, of "rootStyle w"]
      by (simp add: palette_applied_def step_state)
  next
    case False
    then have "rootStyle (step e w) = rootStyle w" and "theme ?s = theme (state w)"
      by (simp_all add: step_def Let_def)
    then show ?thesis
      using a by (simp add: palette_applied_def step_state)
  qed
qed

lemma mount_palette_applied: "palette_applied (mount m root0)"
  by (simp add: palette_applied_def mount_def mountEffect_def initialState_def setReduceMotion_def
      palette_def themeEffect_def palette_table_def setProperty_def Let_def)

lemma run_palette_applied: "palette_applied w \<Longrightarrow> palette_applied (run es w)"
  by (induction es arbitrary: w) (simp_all add: step_palette_applied)

lemma deliver_in_range: "in_slider_range (deliver e)"
  by (cases e) (simp_all add: deliver_def in_slider_range_def rangeValue_def)

lemma mount_fontSize: "fontSize (state (mount m root0)) = 16"
  by (simp add: mount_def mountEffect_def initialState_def setReduceMotion_def)

lemma step_signal_irrelevant:
  "state w' = state w \<Longrightarrow> rootStyle w' = rootStyle w \<Longrightarrow>
   state (step e w') = state (step e w) \<and> rootStyle (step e w') = rootStyle (step e w)"
  by (simp add: step_def Let_def)

lemma run_signal_irrelevant:
  "state w' = state w \<Longrightarrow> rootStyle w' = rootStyle w \<Longrightarrow>
   state (run es w') = state (run es w) \<and> rootStyle (run es w') = rootStyle (run es w)"
proof (induction es arbitrary: w w')
  case Nil
  then show ?case by simp
next
  case (Cons e es)
  have "state (step e w') = state (step e w) \<and> rootStyle (step e w') = rootStyle (step e w)"
    using Cons.prems by (rule step_signal_irrelevant)
  then show ?case using Cons.IH [of "step e w'" "step e w"] by simp
qed

lemma step_system_change:
  "state (step (SystemMotionPrefChange b) w) = state w
   \<and> rootStyle (step (SystemMotionPrefChange b) w) = rootStyle w"
  by (simp add: step_def Let_def)

lemma run_user_events:
  "state (run es w) = state (run (filter user_event es) w)
   \<and> rootStyle (run es w) = rootStyle (run (filter user_event es) w)"
proof (induction es arbitrary: w)
  case Nil
  then show ?case by simp
next
  case (Cons e es)
  show ?case
  proof (cases "user_event e")
    case True
    then show ?thesis using Cons.IH [of "step e w"] by simp
  next
    case False
    then obtain b where e: "e = SystemMotionPrefChange b"
      by (cases e) (simp_all add: user_event_def)
    have "state (run es (step e w)) = state (run es w)
        \<and> rootStyle (run es (step e w)) = rootStyle (run es w)"
      using run_signal_irrelevant [of "step e w" w es] step_system_change [of b w] e by simp
    then show ?thesis using Cons.IH [of w] False by simp
  qed
qed

lemma set_DecorativeCat:
  "set (DecorativeCat a b c) = {CatBody} \<union> (if \<not> a \<and> c \<and> \<not> b then {CatSparkles} else {})"
  by (auto simp add: DecorativeCat_def)

lemma set_DecorativeMoon:
  "set (DecorativeMoon a b) = {MoonDisc} \<union> (if \<not> a then {MoonHighlight} else {})"
  by (auto simp add: DecorativeMoon_def)

lemma set_DecorativeShark:
  "set (DecorativeShark a b c) = {SharkBody} \<union> (if \<not> a \<and> c \<and> \<not> b then {SharkSparkles} else {})"
  by (auto simp add: DecorativeShark_def)

lemma set_OceanWaves:
  "set (OceanWaves a b) =
     (if a then {WavesPlaceholder} else {WavePath} \<union> (if \<not> b then {WaveAnimate} else {}))"
  by (auto simp add: OceanWaves_def)

lemma set_Sparkles:
  "set (Sparkles b) =
     (\<lambda>(l, t). Sparkle l t) ` set sparkles \<union> (if \<not> b then {FloatyKeyframes} else {})"
  by (auto simp add: Sparkles_def)

lemmas set_component =
  set_DecorativeCat set_DecorativeMoon set_DecorativeShark set_OceanWaves set_Sparkles

section \<open>Font size\<close>

text \<open>
  C1: for every numeric input \<open>n\<close> put into the font-size control, the font size
  applied by the handler is \<open>n\<close> clamped to the nearest bound of 14 and 28, so it lies
  between 14 and 28; and after any run of events delivered by the controls to the
  mounted page the font size is between 14 and 28.
\<close>

theorem fontSize_clamped_by_control:
  "fontSize (handle (deliver (FontSizeChange n)) s) = clamp_spec n
   \<and> 14 \<le> fontSize (handle (deliver (FontSizeChange n)) s)
   \<and> fontSize (handle (deliver (FontSizeChange n)) s) \<le> 28
   \<and> 14 \<le> fontSize (state (run (map deliver es) (mount m root0)))
   \<and> fontSize (state (run (map deliver es) (mount m root0))) \<le> 28"
proof -
  have a: "list_all in_slider_range (map deliver es)"
    by (simp add: list_all_iff deliver_in_range)
  have b: "14 \<le> fontSize (state (run (map deliver es) (mount m root0)))
      \<and> fontSize (state (run (map deliver es) (mount m root0))) \<le> 28"
    using run_range [OF a, of "mount m root0"] by (simp add: mount_fontSize)
  show ?thesis
    using b by (simp add: deliver_def rangeValue_def clamp_spec_def setFontSize_def)
qed

theorem fontSize_clamped_by_control_witness:
  "fontSize (handle (deliver (FontSizeChange 40)) initialState) = 28
   \<and> fontSize (handle (deliver (FontSizeChange 3)) initialState) = 14
   \<and> fontSize (state (run (map deliver [OceanClick, FontSizeChange 40, QuietModeClick])
        (mount False Map.empty))) = 28
   \<and> rootStyle (run (map deliver [OceanClick, FontSizeChange 40, QuietModeClick])
        (mount False Map.empty)) ''--site-font-size'' = Some ''28px''
   \<and> 14 \<le> fontSize (state (run (map deliver [OceanClick, FontSizeChange 40, QuietModeClick])
        (mount False Map.empty)))
   \<and> fontSize (state (run (map deliver [OceanClick, FontSizeChange 40, QuietModeClick])
        (mount False Map.empty))) \<le> 28"
proof -
  let ?es = "[OceanClick, FontSizeChange 40, QuietModeClick]"
  note hi = fontSize_clamped_by_control [of 40 initialState ?es False Map.empty]
  note lo = fontSize_clamped_by_control [of 3 initialState ?es False Map.empty]
  have c: "clamp_spec 40 = 28" "clamp_spec 3 = 14"
    by (simp_all add: clamp_spec_def)
  have v: "fontSize (state (run (map deliver ?es) (mount False Map.empty))) = 28"
    by (simp add: step_state deliver_def rangeValue_def setter_defs handler_defs)
  have r: "rootStyle (run (map deliver ?es) (mount False Map.empty)) ''--site-font-size''
      = Some ''28px''"
    by (simp add: step_def mount_def mountEffect_def initialState_def deliver_def rangeValue_def
        setter_defs handler_defs themeEffect_def setProperty_def px_def numberToString_def
        decimal.simps digit_char_def Let_def)
  show ?thesis
    using hi lo v r by (simp add: c)
qed

section \<open>Decorations\<close>

text \<open>
  C2: with \<open>simplified\<close> set, every decorative element (cat, moon, shark, waves,
  sparkles) is to be hidden. The code at the state Quiet Mode produces from the initial
  one: the output still holds the body of the cat, the disc of the moon and the body of
  the shark, beside the placeholder that replaces the waves.
\<close>

theorem simplified_bodies_still_rendered:
  "simplified (quietModeClick initialState)
   \<and> AutismFriendlySite (quietModeClick initialState)
       = [CatBody, MoonDisc, SharkBody, WavesPlaceholder]"
  by (simp add: AutismFriendlySite_def component_defs quietModeClick_def setter_defs
      initialState_def)

text \<open>
  C3, as the specification states it: a sparkle-class decoration is visible iff the
  state is not simplified and decorations are enabled, whatever \<open>reduceMotion\<close> is.
  With the initial state and \<open>reduceMotion\<close> set, the rule makes the sparkles around
  the cat visible, and the code does not render them; with \<open>reduceMotion\<close> cleared it
  does.
\<close>

theorem visibility_reduceMotion_counterexample:
  "visible_spec CatSparkles (setReduceMotion True initialState)
   \<and> CatSparkles \<notin> set (AutismFriendlySite (setReduceMotion True initialState))
   \<and> CatSparkles \<in> set (AutismFriendlySite (setReduceMotion False initialState))"
  by (simp add: visible_spec_def AutismFriendlySite_def set_component sparkles_def
      setReduceMotion_def initialState_def)

text \<open>
  C3, amended, for every preference state: the sparkle groups around the cat and the
  shark are rendered iff the state is not simplified, sparkles are on and
  \<open>reduceMotion\<close> is off; a full-page sparkle is rendered iff it is one of the four
  of the table, the state is not simplified and sparkles are on; the highlight of the
  moon and the wave path are rendered iff the state is not simplified. Of the two
  animations, the one of the waves is attached iff the state is not simplified and
  \<open>reduceMotion\<close> is off, the one of the full-page sparkles iff moreover sparkles are
  on.
\<close>

theorem decoration_visibility:
  "(CatSparkles \<in> set (AutismFriendlySite s))
     = (\<not> simplified s \<and> sparklesOn s \<and> \<not> reduceMotion s)
   \<and> (SharkSparkles \<in> set (AutismFriendlySite s))
     = (\<not> simplified s \<and> sparklesOn s \<and> \<not> reduceMotion s)
   \<and> (Sparkle l t \<in> set (AutismFriendlySite s))
     = ((l, t) \<in> set sparkles \<and> \<not> simplified s \<and> sparklesOn s)
   \<and> (MoonHighlight \<in> set (AutismFriendlySite s)) = (\<not> simplified s)
   \<and> (WavePath \<in> set (AutismFriendlySite s)) = (\<not> simplified s)
   \<and> (WaveAnimate \<in> set (AutismFriendlySite s)) = (\<not> simplified s \<and> \<not> reduceMotion s)
   \<and> (FloatyKeyframes \<in> set (AutismFriendlySite s))
     = (\<not> simplified s \<and> sparklesOn s \<and> \<not> reduceMotion s)"
  by (auto simp add: AutismFriendlySite_def set_component)

text \<open>
  C4: with \<open>reduceMotion\<close> set, the output holds no animation: neither the SVG
  \<open>animate\<close> element nor the style element with the keyframes.
\<close>

theorem reduceMotion_no_animation:
  "reduceMotion s \<Longrightarrow> filter is_animation (AutismFriendlySite s) = []"
  by (simp add: AutismFriendlySite_def component_defs sparkles_def)

theorem reduceMotion_no_animation_witness:
  "reduceMotion (setReduceMotion True initialState)
   \<and> filter is_animation (AutismFriendlySite (setReduceMotion True initialState)) = []
   \<and> WavePath \<in> set (AutismFriendlySite (setReduceMotion True initialState))"
proof -
  have h: "reduceMotion (setReduceMotion True initialState)"
    by (simp add: setReduceMotion_def)
  have v: "WavePath \<in> set (AutismFriendlySite (setReduceMotion True initialState))"
    by (simp add: AutismFriendlySite_def set_component setReduceMotion_def initialState_def)
  show ?thesis using h v reduceMotion_no_animation [OF h] by simp
qed

section \<open>Palette\<close>

text \<open>
  C5: for each of the three themes, whatever the other fields of the state and whatever
  the root style held before, the theme effect leaves exactly the three colours of the
  fixed table in the background, muted and accent properties; and after any run of
  events from the mounted page, the palette in the root style is the row of the table
  for the current theme.
\<close>

theorem palette_fixed_table:
  "palette (themeEffect (setTheme ''calm'' s) root)
     = (Some ''#fffef6'', Some ''#52606d'', Some ''#7cc0e8'')
   \<and> palette (themeEffect (setTheme ''ocean'' s) root)
     = (Some ''#eef9ff'', Some ''#0e3b57'', Some ''#00a6d6'')
   \<and> palette (themeEffect (setTheme ''contrast'' s) root)
     = (Some ''#000000'', Some ''#ffffff'', Some ''#ffd60a'')
   \<and> palette (rootStyle (run es (mount m root0)))
     = palette_table (theme (state (run es (mount m root0))))"
  using run_palette_applied [OF mount_palette_applied, of es m root0]
  by (simp add: palette_def themeEffect_def setTheme_def setProperty_def Let_def palette_applied_def)

theorem palette_fixed_table_witness:
  "palette (themeEffect (setTheme ''ocean'' initialState) Map.empty)
     = (Some ''#eef9ff'', Some ''#0e3b57'', Some ''#00a6d6'')
   \<and> theme (state (run [OceanClick, FontSizeChange 20, ContrastClick, QuietModeClick]
        (mount False Map.empty))) = ''contrast''
   \<and> palette (rootStyle (run [OceanClick, FontSizeChange 20, ContrastClick, QuietModeClick]
        (mount False Map.empty)))
     = (Some ''#000000'', Some ''#ffffff'', Some ''#ffd60a'')"
proof -
  let ?es = "[OceanClick, FontSizeChange 20, ContrastClick, QuietModeClick]"
  have th: "theme (state (run ?es (mount False Map.empty))) = ''contrast''"
    by (simp add: step_state setter_defs handler_defs)
  note t = palette_fixed_table [of initialState Map.empty ?es False Map.empty]
  show ?thesis
    using t th by (simp add: palette_table_def)
qed

text \<open>
  C10: for a theme that is none of the three, the theme effect writes the font-size
  property and nothing else, so the palette read back is the one that was there.
\<close>

theorem unknown_theme_keeps_palette:
  "theme s \<noteq> ''calm'' \<Longrightarrow> theme s \<noteq> ''ocean'' \<Longrightarrow> theme s \<noteq> ''contrast'' \<Longrightarrow>
   themeEffect s root = root(''--site-font-size'' \<mapsto> px (fontSize s))
   \<and> palette (themeEffect s root) = palette root
   \<and> themeEffect s root ''--site-font-size'' = Some (px (fontSize s))"
  by (simp add: themeEffect_def setProperty_def palette_def Let_def)

theorem unknown_theme_keeps_palette_witness:
  "theme (setFontSize 20 (setTheme ''neon'' initialState)) \<noteq> ''calm''
   \<and> theme (setFontSize 20 (setTheme ''neon'' initialState)) \<noteq> ''ocean''
   \<and> theme (setFontSize 20 (setTheme ''neon'' initialState)) \<noteq> ''contrast''
   \<and> palette (themeEffect (setFontSize 20 (setTheme ''neon'' initialState))
        (themeEffect initialState Map.empty))
      = (Some ''#fffef6'', Some ''#52606d'', Some ''#7cc0e8'')
   \<and> themeEffect (setFontSize 20 (setTheme ''neon'' initialState))
        (themeEffect initialState Map.empty) ''--site-font-size'' = Some ''20px''"
proof -
  let ?s = "setFontSize 20 (setTheme ''neon'' initialState)"
  have h1: "theme ?s \<noteq> ''calm''" and h2: "theme ?s \<noteq> ''ocean''"
    and h3: "theme ?s \<noteq> ''contrast''"
    by (simp_all add: setFontSize_def setTheme_def)
  have p: "palette (themeEffect initialState Map.empty)
      = (Some ''#fffef6'', Some ''#52606d'', Some ''#7cc0e8'')"
    by (simp add: palette_def themeEffect_def initialState_def setProperty_def Let_def)
  have f: "px (fontSize ?s) = ''20px''"
    by (simp add: setFontSize_def px_def numberToString_def decimal.simps digit_char_def)
  note t = unknown_theme_keeps_palette [OF h1 h2 h3, of "themeEffect initialState Map.empty"]
  show ?thesis
    using h1 h2 h3 t [unfolded f p] by blast
qed

section \<open>Presets, setters and the toggle\<close>

text \<open>
  C6: from every state, Quiet Mode gives simplified, reduced motion and sparkles off,
  Playful Mode gives the three opposite values; each is idempotent and leaves the theme
  and the font size as they were.
\<close>

theorem presets:
  "simplified (quietModeClick s) = True \<and> reduceMotion (quietModeClick s) = True
   \<and> sparklesOn (quietModeClick s) = False
   \<and> simplified (playfulModeClick s) = False \<and> reduceMotion (playfulModeClick s) = False
   \<and> sparklesOn (playfulModeClick s) = True
   \<and> quietModeClick (quietModeClick s) = quietModeClick s
   \<and> playfulModeClick (playfulModeClick s) = playfulModeClick s
   \<and> theme (quietModeClick s) = theme s \<and> fontSize (quietModeClick s) = fontSize s
   \<and> theme (playfulModeClick s) = theme s \<and> fontSize (playfulModeClick s) = fontSize s"
  by (simp add: handler_defs setter_defs)

text \<open>
  C7: the mounted state is theme calm, font size 16, not simplified, sparkles on, and
  \<open>reduceMotion\<close> equal to the host's reduced-motion signal read at mount. The read is
  one-shot: whatever events follow, the state they lead to does not depend on the value
  the signal has, and is the state the same run gives with every change of the host
  setting left out; such a change only changes the signal.
\<close>

theorem mount_defaults:
  "state (mount m root0) =
     \<lparr>theme = ''calm'', fontSize = 16, reduceMotion = m, simplified = False,
      sparklesOn = True\<rparr>
   \<and> state (run es (w\<lparr>mqMatches := b\<rparr>)) = state (run es w)
   \<and> state (run es w) = state (run (filter user_event es) w)
   \<and> state (run (map SystemMotionPrefChange bs) w) = state w
   \<and> mqMatches (step (SystemMotionPrefChange b) w) = b"
  using run_signal_irrelevant [of "w\<lparr>mqMatches := b\<rparr>" w es] run_user_events [of es w]
  by (simp add: run_system_changes mount_def mountEffect_def initialState_def
      setReduceMotion_def step_def Let_def)

theorem mount_defaults_witness:
  "state (mount True Map.empty) =
     \<lparr>theme = ''calm'', fontSize = 16, reduceMotion = True, simplified = False,
      sparklesOn = True\<rparr>
   \<and> state (run [SystemMotionPrefChange True, OceanClick] ((mount False Map.empty)\<lparr>mqMatches := True\<rparr>))
       = state (run [SystemMotionPrefChange True, OceanClick] (mount False Map.empty))
   \<and> state (run [SystemMotionPrefChange True, OceanClick] (mount False Map.empty))
       = state (run [OceanClick] (mount False Map.empty))
   \<and> \<not> reduceMotion (state (run [SystemMotionPrefChange True, OceanClick] (mount False Map.empty)))
   \<and> state (run (map SystemMotionPrefChange [False, True, False]) (mount True Map.empty))
       = state (mount True Map.empty)
   \<and> reduceMotion
        (state (run (map SystemMotionPrefChange [False, True, False]) (mount True Map.empty)))
   \<and> mqMatches (step (SystemMotionPrefChange False) (mount True Map.empty)) = False"
proof -
  note t = mount_defaults
    [where m = True and ?root0.0 = Map.empty and bs = "[False, True, False]"
       and w = "mount True Map.empty" and b = False and es = "[]"]
  note u = mount_defaults
    [where m = False and ?root0.0 = Map.empty and bs = "[]"
       and w = "mount False Map.empty" and b = True
       and es = "[SystemMotionPrefChange True, OceanClick]"]
  have f: "filter user_event [SystemMotionPrefChange True, OceanClick] = [OceanClick]"
    by (simp add: user_event_def)
  have r: "reduceMotion (state (mount True Map.empty))"
    using t by simp
  have n: "\<not> reduceMotion (state (run [OceanClick] (mount False Map.empty)))"
    by (simp add: step_state setter_defs mount_def mountEffect_def initialState_def)
  show ?thesis
    using t u [unfolded f] r n by simp
qed

text \<open>
  C8: each of the five setters sets its own field and leaves the other four fields of
  the state as they were.
\<close>

theorem setters_frame:
  "theme (setTheme t s) = t
   \<and> fontSize (setTheme t s) = fontSize s \<and> reduceMotion (setTheme t s) = reduceMotion s
   \<and> simplified (setTheme t s) = simplified s \<and> sparklesOn (setTheme t s) = sparklesOn s
   \<and> fontSize (setFontSize n s) = n
   \<and> theme (setFontSize n s) = theme s \<and> reduceMotion (setFontSize n s) = reduceMotion s
   \<and> simplified (setFontSize n s) = simplified s \<and> sparklesOn (setFontSize n s) = sparklesOn s
   \<and> reduceMotion (setReduceMotion b s) = b
   \<and> theme (setReduceMotion b s) = theme s \<and> fontSize (setReduceMotion b s) = fontSize s
   \<and> simplified (setReduceMotion b s) = simplified s
   \<and> sparklesOn (setReduceMotion b s) = sparklesOn s
   \<and> simplified (setSimplified b s) = b
   \<and> theme (setSimplified b s) = theme s \<and> fontSize (setSimplified b s) = fontSize s
   \<and> reduceMotion (setSimplified b s) = reduceMotion s
   \<and> sparklesOn (setSimplified b s) = sparklesOn s
   \<and> sparklesOn (setSparklesOn u s) = applyUpdate u (sparklesOn s)
   \<and> theme (setSparklesOn u s) = theme s \<and> fontSize (setSparklesOn u s) = fontSize s
   \<and> reduceMotion (setSparklesOn u s) = reduceMotion s
   \<and> simplified (setSparklesOn u s) = simplified s"
  by (simp add: setter_defs)

text \<open>
  C9: the sparkles button negates \<open>sparklesOn\<close>, and pressing it twice gives the
  state back.
\<close>

theorem sparkles_toggle_involution:
  "sparklesOn (handle SparklesClick s) = (\<not> sparklesOn s)
   \<and> handle SparklesClick (handle SparklesClick s) = s"
  by (simp add: sparklesClick_def setSparklesOn_def)

end
